theory Spec2Isabelle
  imports Main
begin

section \<open>The AQL parser driver (arangod/Aql/Parser.cpp)\<close>

text \<open>
  The parser object of \<^verbatim>\<open>Parser.cpp\<close> is embedded as a record that is passed to
  every member function and returned updated. Pointers (\<^verbatim>\<open>AstNode*\<close>, \<^verbatim>\<open>void*\<close>) are
  addresses; a pointer that may be \<^verbatim>\<open>nullptr\<close> is an \<open>addr option\<close>. The nodes live
  in a store owned by the AST, so that two stack entries holding the same address alias
  the same node.
\<close>

subsection \<open>Data\<close>

type_synonym addr = nat

text \<open>
  Modelled from the spec: the enumerations \<^verbatim>\<open>QueryType\<close>, \<^verbatim>\<open>ScopeType\<close> and
  \<^verbatim>\<open>AstNodeType\<close> and the error numbers are declared in headers that are not part of
  the sources at hand (\<^verbatim>\<open>Aql/Query.h\<close>, \<^verbatim>\<open>Aql/Scopes.h\<close>, \<^verbatim>\<open>Aql/AstNode.h\<close>,
  \<^verbatim>\<open>Basics/voc-errors.h\<close>). The classification is READ or one of the write kinds,
  a scope is MAIN or SUBQUERY; of the node types only the ones \<^verbatim>\<open>Parser.cpp\<close> names
  are told apart.
\<close>

datatype QueryType =
    AQL_QUERY_READ
  | AQL_QUERY_REMOVE
  | AQL_QUERY_INSERT
  | AQL_QUERY_UPDATE
  | AQL_QUERY_REPLACE
  | AQL_QUERY_UPSERT

datatype ScopeType = AQL_SCOPE_MAIN | AQL_SCOPE_SUBQUERY

datatype AstNodeType =
    NODE_TYPE_LIST
  | NODE_TYPE_ARRAY
  | NODE_TYPE_ARRAY_ELEMENT
  | NODE_TYPE_OTHER

datatype error_code =
    TRI_ERROR_NO_ERROR
  | TRI_ERROR_QUERY_PARSE
  | TRI_ERROR_QUERY_MODIFY_IN_SUBQUERY
  | TRI_ERROR_QUERY_MULTI_MODIFY
  | TRI_ERROR_QUERY_COMPILE_TIME_OPTIONS
  | TRI_ERROR_OTHER int

record AstNode =
  type :: AstNodeType
  stringValue :: "string option"
  members :: "addr list"

text \<open>
  The query context: its text, its classification, the error sink and the collection
  names. An error is registered with a code and an optional detail text.
\<close>

record Query =
  queryString :: string
  queryType :: QueryType
  errors :: "(error_code \<times> string option) list"
  collectionNames :: "string list"

text \<open>
  The AST: the stack of active scopes (innermost last), the write target, the bind
  parameter names and the nodes it owns. The nodes are kept in the order of their
  creation and the address of a node is its position, so a new node gets the first
  unused address and an address beyond the last node holds no node.
\<close>

record Ast =
  scopes :: "ScopeType list"
  writeCollection :: "addr option"
  bindParameters :: "string list"
  nodes :: "AstNode list"

text \<open>
  The parser: \<^verbatim>\<open>_query\<close>, \<^verbatim>\<open>_ast\<close> and \<^verbatim>\<open>_stack\<close>. The stack is a
  \<^verbatim>\<open>std::vector<void*>\<close> whose back is the top, so the top is the last element of
  the list. The source cursor (\<^verbatim>\<open>_buffer\<close>, \<^verbatim>\<open>_remainingLength\<close>, \<^verbatim>\<open>_offset\<close>,
  \<^verbatim>\<open>_marker\<close>) is only read by the scanner and is left out.
\<close>

record Parser =
  query :: Query
  ast :: Ast
  stack :: "addr list"

text \<open>
  How a member function ends: it returns a value, an exception leaves it, an
  assertion fails and the process stops (\<^verbatim>\<open>TRI_ASSERT\<close> is taken as active, the way
  the spec reads it: a violated assertion fails fast), or it runs into behaviour that
  C++ leaves undefined (an access through a pointer that holds no node, a write past
  the end of a buffer). The first two carry the parser as the call left it.
\<close>

datatype 'a outcome =
    Returned 'a Parser
  | Thrown error_code Parser
  | AssertionFailed
  | Undefined

subsection \<open>The semantic value stack\<close>

definition pushStack :: "addr \<Rightarrow> Parser \<Rightarrow> unit outcome" where
  "pushStack v p = Returned () (p\<lparr>stack := stack p @ [v]\<rparr>)"

definition popStack :: "Parser \<Rightarrow> addr outcome" where
  "popStack p =
     (if stack p = [] then AssertionFailed
      else Returned (last (stack p)) (p\<lparr>stack := butlast (stack p)\<rparr>))"

definition peekStack :: "Parser \<Rightarrow> addr outcome" where
  "peekStack p =
     (if stack p = [] then AssertionFailed
      else Returned (last (stack p)) p)"

text \<open>Sequencing of two calls: the second runs only if the first returned.\<close>

definition andThen :: "'a outcome \<Rightarrow> ('a \<Rightarrow> Parser \<Rightarrow> 'b outcome) \<Rightarrow> 'b outcome" where
  "andThen r f =
     (case r of
        Returned x p \<Rightarrow> f x p
      | Thrown e p \<Rightarrow> Thrown e p
      | AssertionFailed \<Rightarrow> AssertionFailed
      | Undefined \<Rightarrow> Undefined)"

subsection \<open>The collaborators of the parser\<close>

text \<open>
  Modelled from the spec: \<^verbatim>\<open>Query::registerError\<close>, \<^verbatim>\<open>Query::type\<close> (getter and
  setter), \<^verbatim>\<open>Ast::isInSubQuery\<close>, \<^verbatim>\<open>Ast::setWriteCollection\<close> and the scope stack
  \<^verbatim>\<open>Scopes::start\<close>, \<^verbatim>\<open>Scopes::endCurrent\<close>, \<^verbatim>\<open>Scopes::numActive\<close> are code of
  \<^verbatim>\<open>Aql/Query.cpp\<close>, \<^verbatim>\<open>Aql/Ast.cpp\<close> and \<^verbatim>\<open>Aql/Scopes.cpp\<close>, which are not among
  the sources at hand. The spec has them as: errors accumulate on the query context;
  the classification is read and set; the scope tracker is a stack of scopes with
  open, close-current and active-count, and "in subquery" asks whether the active
  (innermost) scope is a subquery; the write target is recorded on the AST. Closing
  a scope when none is active is a stack underflow and fails fast.
\<close>

definition registerError :: "error_code \<Rightarrow> string option \<Rightarrow> Query \<Rightarrow> Query" where
  "registerError code details q = q\<lparr>errors := errors q @ [(code, details)]\<rparr>"

definition isInSubQuery :: "Ast \<Rightarrow> bool" where
  "isInSubQuery a =
     (case scopes a of [] \<Rightarrow> False | _ # _ \<Rightarrow> last (scopes a) = AQL_SCOPE_SUBQUERY)"

definition setWriteCollection :: "addr \<Rightarrow> Ast \<Rightarrow> Ast" where
  "setWriteCollection node a = a\<lparr>writeCollection := Some node\<rparr>"

definition start :: "ScopeType \<Rightarrow> Ast \<Rightarrow> Ast" where
  "start t a = a\<lparr>scopes := scopes a @ [t]\<rparr>"

definition endCurrent :: "Ast \<Rightarrow> Ast option" where
  "endCurrent a =
     (if scopes a = [] then None else Some (a\<lparr>scopes := butlast (scopes a)\<rparr>))"

definition numActive :: "Ast \<Rightarrow> nat" where
  "numActive a = length (scopes a)"

subsection \<open>configureWriteQuery\<close>

text \<open>
  \<^verbatim>\<open>AstNode::isConstant\<close> is declared in a header that is not at hand; it is a
  parameter of the model, a predicate on the address of the option node. The option
  node may be \<^verbatim>\<open>nullptr\<close>.
\<close>

definition configureWriteQuery ::
  "(addr \<Rightarrow> bool) \<Rightarrow> QueryType \<Rightarrow> addr \<Rightarrow> addr option \<Rightarrow> Parser \<Rightarrow> bool outcome" where
  "configureWriteQuery isConstant qtype collectionNode optionNode p =
     (if qtype = AQL_QUERY_READ then AssertionFailed
      else if isInSubQuery (ast p) then
        Returned False
          (p\<lparr>query := registerError TRI_ERROR_QUERY_MODIFY_IN_SUBQUERY None (query p)\<rparr>)
      else
        (let oldType = queryType (query p) in
         if oldType \<noteq> AQL_QUERY_READ then
           Returned False
             (p\<lparr>query := registerError TRI_ERROR_QUERY_MULTI_MODIFY None (query p)\<rparr>)
         else
           (let p1 = p\<lparr>ast := setWriteCollection collectionNode (ast p)\<rparr>;
                p2 = (case optionNode of
                        None \<Rightarrow> p1
                      | Some opt \<Rightarrow>
                          if \<not> isConstant opt then
                            p1\<lparr>query :=
                              registerError TRI_ERROR_QUERY_COMPILE_TIME_OPTIONS None (query p1)\<rparr>
                          else p1);
                p3 = p2\<lparr>query := (query p2)\<lparr>queryType := qtype\<rparr>\<rparr>
            in Returned True p3)))"

text \<open>
  A sequence of calls of \<^verbatim>\<open>configureWriteQuery\<close> on one parser, as the grammar
  makes them. Between two calls the grammar opens and closes scopes, so every call
  comes with the scope stack that is active when it is made. The answers of the calls
  are collected; the run ends where a call does not return.
\<close>

record write_call =
  active_scopes :: "ScopeType list"
  kind :: QueryType
  target :: addr
  options :: "addr option"

fun configureWriteQueries ::
  "(addr \<Rightarrow> bool) \<Rightarrow> write_call list \<Rightarrow> Parser \<Rightarrow> bool list \<times> Parser option" where
  "configureWriteQueries isConstant [] p = ([], Some p)"
| "configureWriteQueries isConstant (c # cs) p =
     (case configureWriteQuery isConstant (kind c) (target c) (options c)
             (p\<lparr>ast := (ast p)\<lparr>scopes := active_scopes c\<rparr>\<rparr>) of
        Returned b p' \<Rightarrow>
          (case configureWriteQueries isConstant cs p' of (bs, r) \<Rightarrow> (b # bs, r))
      | Thrown e p' \<Rightarrow> ([], None)
      | AssertionFailed \<Rightarrow> ([], None)
      | Undefined \<Rightarrow> ([], None))"

text \<open>The kind of the first call that was answered with success, if there is one.\<close>

fun firstSuccess :: "write_call list \<Rightarrow> bool list \<Rightarrow> QueryType option" where
  "firstSuccess (c # cs) (b # bs) = (if b then Some (kind c) else firstSuccess cs bs)"
| "firstSuccess _ _ = None"

definition parser0 :: Parser where
  "parser0 =
     \<lparr>query = \<lparr>queryString = ''INSERT {a:1} INTO c'', queryType = AQL_QUERY_READ,
               errors = [], collectionNames = []\<rparr>,
      ast = \<lparr>scopes = [AQL_SCOPE_MAIN], writeCollection = None, bindParameters = [],
             nodes = []\<rparr>,
      stack = []\<rparr>"

definition parser_in_subquery :: Parser where
  "parser_in_subquery =
     parser0\<lparr>ast := (ast parser0)\<lparr>scopes := [AQL_SCOPE_MAIN, AQL_SCOPE_SUBQUERY]\<rparr>\<rparr>"

definition write_then_write :: "write_call list" where
  "write_then_write =
     [\<lparr>active_scopes = [AQL_SCOPE_MAIN], kind = AQL_QUERY_INSERT, target = 1, options = None\<rparr>,
      \<lparr>active_scopes = [AQL_SCOPE_MAIN], kind = AQL_QUERY_REMOVE, target = 2, options = None\<rparr>]"

definition write_then_subquery_write :: "write_call list" where
  "write_then_subquery_write =
     [\<lparr>active_scopes = [AQL_SCOPE_MAIN], kind = AQL_QUERY_INSERT, target = 1, options = None\<rparr>,
      \<lparr>active_scopes = [AQL_SCOPE_MAIN, AQL_SCOPE_SUBQUERY], kind = AQL_QUERY_REMOVE,
       target = 2, options = None\<rparr>]"

subsection \<open>parse\<close>

text \<open>
  The scanner and the generated grammar are outside \<^verbatim>\<open>Parser.cpp\<close>. The calls that
  manage the scanner handle (\<^verbatim>\<open>Aqllex_init\<close>, \<^verbatim>\<open>Aqlset_extra\<close>,
  \<^verbatim>\<open>Aqllex_destroy\<close>) are recorded, in the order in which \<^verbatim>\<open>parse\<close> makes them, in
  a log that only \<^verbatim>\<open>parse\<close> writes. The grammar \<^verbatim>\<open>Aqlparse\<close> is a parameter: any
  function that takes the parser and returns a status (zero for success), throws, or
  stops at an assertion of one of the hooks it calls. The serializer
  \<^verbatim>\<open>Ast::toJson\<close> is a parameter as well.
\<close>

datatype scanner_call = Aqllex_init | Aqlset_extra | Aqllex_destroy

text \<open>
  The fields of \<^verbatim>\<open>QueryResult\<close> are \<^verbatim>\<open>collectionNames\<close>, \<^verbatim>\<open>bindParameters\<close> and
  \<^verbatim>\<open>json\<close>; they are prefixed here, the first two names being taken by the
  accessors of the query and of the AST.
\<close>

record QueryResult =
  result_collectionNames :: "string list"
  result_bindParameters :: "string list"
  result_json :: string

text \<open>
  The body of the \<^verbatim>\<open>try\<close> block: a non-zero status of the grammar throws
  \<^verbatim>\<open>TRI_ERROR_QUERY_PARSE\<close>, before the block gets to release the scanner.
\<close>

definition tryAqlparse ::
  "(Parser \<Rightarrow> int outcome) \<Rightarrow> scanner_call list \<Rightarrow> Parser
     \<Rightarrow> scanner_call list \<times> unit outcome" where
  "tryAqlparse Aqlparse log p =
     (case Aqlparse p of
        Returned rc p' \<Rightarrow>
          if rc \<noteq> 0 then (log, Thrown TRI_ERROR_QUERY_PARSE p')
          else (log @ [Aqllex_destroy], Returned () p')
      | Thrown e p' \<Rightarrow> (log, Thrown e p')
      | AssertionFailed \<Rightarrow> (log, AssertionFailed)
      | Undefined \<Rightarrow> (log, Undefined))"

text \<open>The handler \<^verbatim>\<open>catch (...)\<close>: release the scanner and throw again.\<close>

definition catchAll :: "scanner_call list \<times> unit outcome \<Rightarrow> scanner_call list \<times> unit outcome" where
  "catchAll r =
     (case r of
        (log, Thrown e p') \<Rightarrow> (log @ [Aqllex_destroy], Thrown e p')
      | (log, Returned u p') \<Rightarrow> (log, Returned u p')
      | (log, AssertionFailed) \<Rightarrow> (log, AssertionFailed)
      | (log, Undefined) \<Rightarrow> (log, Undefined))"

definition parse ::
  "(Parser \<Rightarrow> int outcome) \<Rightarrow> (Ast \<Rightarrow> string) \<Rightarrow> Parser
     \<Rightarrow> scanner_call list \<times> QueryResult outcome" where
  "parse Aqlparse toJson p =
     (let p1 = p\<lparr>ast := start AQL_SCOPE_MAIN (ast p)\<rparr>;
          log1 = [Aqllex_init, Aqlset_extra];
          (log2, tried) = catchAll (tryAqlparse Aqlparse log1 p1)
      in (log2,
          andThen tried (\<lambda>_ p2.
            case endCurrent (ast p2) of
              None \<Rightarrow> AssertionFailed
            | Some a3 \<Rightarrow>
                if numActive a3 \<noteq> 0 then AssertionFailed
                else Returned
                       \<lparr>result_collectionNames = collectionNames (query p2),
                        result_bindParameters = bindParameters a3,
                        result_json = toJson a3\<rparr>
                       (p2\<lparr>ast := a3\<rparr>))))"

text \<open>Runs of the grammar, and a parser that has not parsed yet.\<close>

definition parser_new :: Parser where
  "parser_new = parser0\<lparr>ast := (ast parser0)\<lparr>scopes := []\<rparr>\<rparr>"

definition grammar_accepts :: "Parser \<Rightarrow> int outcome" where
  "grammar_accepts p = Returned 0 p"

definition grammar_rejects :: "Parser \<Rightarrow> int outcome" where
  "grammar_rejects p = Returned 1 p"

definition grammar_leaves_value :: "Parser \<Rightarrow> int outcome" where
  "grammar_leaves_value p = andThen (pushStack 7 p) (\<lambda>_. Returned 0)"

definition grammar_leaves_scope :: "Parser \<Rightarrow> int outcome" where
  "grammar_leaves_scope p = Returned 0 (p\<lparr>ast := start AQL_SCOPE_SUBQUERY (ast p)\<rparr>)"

definition grammar_throws :: "Parser \<Rightarrow> int outcome" where
  "grammar_throws p = Thrown (TRI_ERROR_OTHER 3) p"

subsection \<open>pushList and pushArray\<close>

text \<open>
  Modelled from the spec: \<^verbatim>\<open>AstNode::addMember\<close> and
  \<^verbatim>\<open>Ast::createNodeArrayElement\<close> are code of \<^verbatim>\<open>Aql/AstNode.h\<close> and
  \<^verbatim>\<open>Aql/Ast.cpp\<close>, which are not among the sources at hand. The spec has them
  as: add member appends the node as the next member; the AST factory wraps a name
  and a node into a named element, a new node that the AST owns.
\<close>

definition addMember :: "addr \<Rightarrow> addr \<Rightarrow> Ast \<Rightarrow> Ast" where
  "addMember n member a =
     a\<lparr>nodes := (nodes a)[n := (nodes a ! n)\<lparr>members := members (nodes a ! n) @ [member]\<rparr>]\<rparr>"

definition arrayElement :: "string \<Rightarrow> addr \<Rightarrow> AstNode" where
  "arrayElement attributeName expression =
     \<lparr>type = NODE_TYPE_ARRAY_ELEMENT, stringValue = Some attributeName,
      members = [expression]\<rparr>"

definition createNodeArrayElement :: "string \<Rightarrow> addr \<Rightarrow> Ast \<Rightarrow> addr \<times> Ast" where
  "createNodeArrayElement attributeName expression a =
     (length (nodes a), a\<lparr>nodes := nodes a @ [arrayElement attributeName expression]\<rparr>)"

text \<open>
  The top of the stack is cast to a node pointer and read. If the address holds no
  node, the read is undefined in C++.
\<close>

definition pushList :: "addr \<Rightarrow> Parser \<Rightarrow> unit outcome" where
  "pushList node p =
     andThen (peekStack p) (\<lambda>list p.
       if \<not> list < length (nodes (ast p)) then Undefined
       else if type (nodes (ast p) ! list) \<noteq> NODE_TYPE_LIST then AssertionFailed
       else Returned () (p\<lparr>ast := addMember list node (ast p)\<rparr>))"

definition pushArray :: "string \<Rightarrow> addr \<Rightarrow> Parser \<Rightarrow> unit outcome" where
  "pushArray attributeName node p =
     andThen (peekStack p) (\<lambda>array p.
       if \<not> array < length (nodes (ast p)) then Undefined
       else if type (nodes (ast p) ! array) \<noteq> NODE_TYPE_ARRAY then AssertionFailed
       else (case createNodeArrayElement attributeName node (ast p) of
               (element, a) \<Rightarrow> Returned () (p\<lparr>ast := addMember array element a\<rparr>)))"

text \<open>Calls of \<^verbatim>\<open>pushList\<close>, and of \<^verbatim>\<open>pushArray\<close>, one after the other.\<close>

fun pushLists :: "addr list \<Rightarrow> Parser \<Rightarrow> unit outcome" where
  "pushLists [] p = Returned () p"
| "pushLists (node # rest) p = andThen (pushList node p) (\<lambda>_. pushLists rest)"

fun pushArrays :: "(string \<times> addr) list \<Rightarrow> Parser \<Rightarrow> unit outcome" where
  "pushArrays [] p = Returned () p"
| "pushArrays ((attributeName, node) # rest) p =
     andThen (pushArray attributeName node p) (\<lambda>_. pushArrays rest)"

text \<open>
  A parser in the middle of a literal: node 0 is a list, node 1 an array (an object
  literal), nodes 2 and 3 are values; the list is open on the stack, or the array.
\<close>

definition literal_nodes :: "AstNode list" where
  "literal_nodes =
     [\<lparr>type = NODE_TYPE_LIST, stringValue = None, members = []\<rparr>,
      \<lparr>type = NODE_TYPE_ARRAY, stringValue = None, members = []\<rparr>,
      \<lparr>type = NODE_TYPE_OTHER, stringValue = None, members = []\<rparr>,
      \<lparr>type = NODE_TYPE_OTHER, stringValue = None, members = []\<rparr>]"

definition parser_in_list :: Parser where
  "parser_in_list = parser0\<lparr>ast := (ast parser0)\<lparr>nodes := literal_nodes\<rparr>, stack := [0]\<rparr>"

definition parser_in_array :: Parser where
  "parser_in_array = parser0\<lparr>ast := (ast parser0)\<lparr>nodes := literal_nodes\<rparr>, stack := [1]\<rparr>"

subsection \<open>registerParseError\<close>

text \<open>
  What \<^verbatim>\<open>%d\<close> prints: the decimal digits of an \<^verbatim>\<open>int\<close>, with a minus sign
  for a negative one.
\<close>

fun decimal :: "nat \<Rightarrow> string" where
  "decimal n =
     (if n < 10 then [''0123456789'' ! n]
      else decimal (n div 10) @ [''0123456789'' ! (n mod 10)])"

definition printf_d :: "int \<Rightarrow> string" where
  "printf_d i = (if i < 0 then CHR ''-'' # decimal (nat (- i)) else decimal (nat i))"

text \<open>
  \<^verbatim>\<open>snprintf(buffer, size, ...)\<close> keeps at most \<open>size - 1\<close> characters of the
  formatted text and ends them with NUL.
\<close>

definition snprintf :: "nat \<Rightarrow> string \<Rightarrow> string" where
  "snprintf n formatted = take (n - 1) formatted"

text \<open>
  The marker under the failing column (lines 181 to 194). The buffer is
  \<^verbatim>\<open>column + 10\<close> bytes of uninitialised memory, whose content is the parameter
  \<open>garbage\<close>. The loop stores a space in the cells \<open>0\<close> to \<open>column - 1\<close> and
  leaves \<open>i = column\<close>; if \<open>i > 0\<close> the last space is overwritten with a caret;
  two carets and the terminating NUL follow. The marker is the buffer read as a C
  string, up to the first NUL.
\<close>

definition arrowpointer :: "(nat \<Rightarrow> char) \<Rightarrow> nat \<Rightarrow> string" where
  "arrowpointer garbage column =
     (let buf0 = map garbage [0 ..< column + 10];
          buf1 = fold (\<lambda>i buf. buf[i := CHR '' '']) [0 ..< column] buf0;
          i1 = column;
          (buf2, i2) = (if i1 > 0 then (buf1[i1 - 1 := CHR ''^''], i1) else (buf1, i1));
          buf3 = buf2[i2 := CHR ''^''];
          buf4 = buf3[i2 + 1 := CHR ''^''];
          buf5 = buf4[i2 + 2 := CHR 0x00]
      in takeWhile (\<lambda>c. c \<noteq> CHR 0x00) buf5)"

text \<open>
  The text that the format
  \<^verbatim>\<open>"%s near '%s' at position %d:%d:\n%s\n%s\n"\<close> produces. The arguments of
  \<^verbatim>\<open>%s\<close> are C strings, which have no NUL in them.
\<close>

definition parseErrorText ::
  "string \<Rightarrow> string \<Rightarrow> int \<Rightarrow> int \<Rightarrow> string \<Rightarrow> string \<Rightarrow> string" where
  "parseErrorText data region line column1 queryText arrow =
     data @ '' near '' @ [CHR 0x27] @ region @ [CHR 0x27] @ '' at position ''
       @ printf_d line @ '':'' @ printf_d column1 @ '':'' @ [CHR 0x0A]
       @ queryText @ [CHR 0x0A] @ arrow @ [CHR 0x0A]"

text \<open>
  The overload with line and column (lines 171 to 212). \<^verbatim>\<open>Query::extractRegion\<close>
  is code of \<^verbatim>\<open>Aql/Query.cpp\<close>, which is not at hand, and is a parameter. The
  column is an \<^verbatim>\<open>int\<close> of 32 bits: a negative column is cast to a huge
  \<^verbatim>\<open>size_t\<close> and the loop writes past the buffer, and beyond 2147483637 the sum
  \<^verbatim>\<open>column + 10\<close> overflows; both are undefined. The message may be
  \<^verbatim>\<open>nullptr\<close>, which is asserted against. The overload that takes a format and one
  value prints them into a buffer of 512 bytes and calls this one with the buffer as the
  message.
\<close>

definition registerParseError ::
  "(Query \<Rightarrow> int \<Rightarrow> int \<Rightarrow> string) \<Rightarrow> (nat \<Rightarrow> char) \<Rightarrow> error_code \<Rightarrow> string option
     \<Rightarrow> int \<Rightarrow> int \<Rightarrow> Parser \<Rightarrow> unit outcome" where
  "registerParseError extractRegion garbage errorCode data line column p =
     (if errorCode = TRI_ERROR_NO_ERROR then AssertionFailed
      else case data of
        None \<Rightarrow> AssertionFailed
      | Some message \<Rightarrow>
          (let region = extractRegion (query p) line column in
           if column < 0 \<or> 2147483637 < column then Undefined
           else
             (let arrow = arrowpointer garbage (nat column);
                  buffer = snprintf 512
                             (parseErrorText message region line (column + 1)
                                (queryString (query p)) arrow)
              in Returned () (p\<lparr>query := registerError errorCode (Some buffer) (query p)\<rparr>))))"

text \<open>A parser whose query text is 600 characters long.\<close>

definition parser_long_query :: Parser where
  "parser_long_query =
     parser0\<lparr>query := (query parser0)\<lparr>queryString := replicate 600 (CHR ''x'')\<rparr>\<rparr>"

section \<open>Properties of the value stack\<close>

text \<open>
  C9. For every parser state and every value \<open>v\<close>, \<^verbatim>\<open>pushStack(v)\<close> followed by
  \<^verbatim>\<open>popStack()\<close> returns exactly \<open>v\<close> and leaves the parser, and so its stack, as it
  was before the push. On an empty stack \<^verbatim>\<open>popStack()\<close> and \<^verbatim>\<open>peekStack()\<close> hit
  their assertion. Whenever \<^verbatim>\<open>peekStack()\<close> returns, it returns the top and the
  parser is unchanged.
\<close>

theorem stack_push_pop_roundtrip:
  "andThen (pushStack v p) (\<lambda>_. popStack) = Returned v p
   \<and> popStack (p\<lparr>stack := []\<rparr>) = AssertionFailed
   \<and> peekStack (p\<lparr>stack := []\<rparr>) = AssertionFailed
   \<and> peekStack (p\<lparr>stack := s @ [v]\<rparr>) = Returned v (p\<lparr>stack := s @ [v]\<rparr>)
   \<and> (peekStack p = AssertionFailed \<or> peekStack p = Returned (last (stack p)) p)"
  by (simp add: andThen_def pushStack_def popStack_def peekStack_def)

section \<open>Properties of the write-query validator\<close>

text \<open>
  C1. A call of \<^verbatim>\<open>configureWriteQuery\<close> with a write kind, outside a subquery, on a
  query that is still classified READ returns true; after it the write target of the
  AST is the collection node and the classification is the kind of the call. The
  error sink gains exactly one COMPILE_TIME_OPTIONS error if the option node is
  non-null and not constant, and nothing otherwise; in both cases the call returns
  true with target and classification set. Scopes and value stack are as before.
\<close>

theorem configureWriteQuery_records_write:
  assumes "opKind \<noteq> AQL_QUERY_READ"
    and "\<not> isInSubQuery (ast p)"
    and "queryType (query p) = AQL_QUERY_READ"
  shows "\<exists>p'. configureWriteQuery isConstant opKind c opt p = Returned True p'
     \<and> writeCollection (ast p') = Some c
     \<and> queryType (query p') = opKind
     \<and> errors (query p') = errors (query p) @
          (case opt of
             None \<Rightarrow> []
           | Some n \<Rightarrow>
               if isConstant n then [] else [(TRI_ERROR_QUERY_COMPILE_TIME_OPTIONS, None)])
     \<and> scopes (ast p') = scopes (ast p) \<and> stack p' = stack p"
  using assms
  by (simp add: configureWriteQuery_def Let_def registerError_def setWriteCollection_def
      split: option.splits)

theorem configureWriteQuery_records_write_witness:
  "AQL_QUERY_INSERT \<noteq> AQL_QUERY_READ
   \<and> \<not> isInSubQuery (ast parser0)
   \<and> queryType (query parser0) = AQL_QUERY_READ
   \<and> (\<exists>p'. configureWriteQuery (\<lambda>_. False) AQL_QUERY_INSERT 3 (Some 4) parser0
              = Returned True p'
         \<and> writeCollection (ast p') = Some 3
         \<and> queryType (query p') = AQL_QUERY_INSERT
         \<and> errors (query p') = [(TRI_ERROR_QUERY_COMPILE_TIME_OPTIONS, None)])"
  using configureWriteQuery_records_write
          [of AQL_QUERY_INSERT parser0 "\<lambda>_. False" 3 "Some 4"]
  by (auto simp add: parser0_def isInSubQuery_def)

text \<open>
  C2. A call of \<^verbatim>\<open>configureWriteQuery\<close> while the active scope is a subquery,
  with whichever write kind (the function is called for write kinds only, and asserts
  so in its first line), returns false and registers MODIFY_IN_SUBQUERY; the
  classification, the write target, the whole AST and the value stack are unchanged.
\<close>

theorem configureWriteQuery_in_subquery:
  assumes "opKind \<noteq> AQL_QUERY_READ"
    and "isInSubQuery (ast p)"
  shows "\<exists>p'. configureWriteQuery isConstant opKind c opt p = Returned False p'
     \<and> errors (query p') = errors (query p) @ [(TRI_ERROR_QUERY_MODIFY_IN_SUBQUERY, None)]
     \<and> queryType (query p') = queryType (query p)
     \<and> writeCollection (ast p') = writeCollection (ast p)
     \<and> ast p' = ast p \<and> stack p' = stack p"
  using assms
  by (simp add: configureWriteQuery_def registerError_def)

theorem configureWriteQuery_in_subquery_witness:
  "AQL_QUERY_REMOVE \<noteq> AQL_QUERY_READ
   \<and> isInSubQuery (ast parser_in_subquery)
   \<and> (\<exists>p'. configureWriteQuery (\<lambda>_. True) AQL_QUERY_REMOVE 5 None parser_in_subquery
              = Returned False p'
         \<and> errors (query p') = [(TRI_ERROR_QUERY_MODIFY_IN_SUBQUERY, None)]
         \<and> queryType (query p') = AQL_QUERY_READ
         \<and> writeCollection (ast p') = None)"
  using configureWriteQuery_in_subquery
          [of AQL_QUERY_REMOVE parser_in_subquery "\<lambda>_. True" 5 None]
  by (auto simp add: parser0_def parser_in_subquery_def isInSubQuery_def)

text \<open>
  A call on a query that is already a write query, with a write kind, returns false
  and changes nothing but the error sink. The subquery check comes first, so the
  error is MODIFY_IN_SUBQUERY inside a subquery and MULTI_MODIFY outside.
\<close>

lemma configureWriteQuery_already_write:
  assumes "queryType (query p) \<noteq> AQL_QUERY_READ" and "k \<noteq> AQL_QUERY_READ"
  shows "configureWriteQuery isConstant k c opt p =
     Returned False (p\<lparr>query := (query p)\<lparr>errors := errors (query p) @
        [(if isInSubQuery (ast p) then TRI_ERROR_QUERY_MODIFY_IN_SUBQUERY
          else TRI_ERROR_QUERY_MULTI_MODIFY, None)]\<rparr>\<rparr>)"
  using assms by (simp add: configureWriteQuery_def registerError_def)

text \<open>The three ways a call can end, and what each says about the classification.\<close>

lemma configureWriteQuery_cases:
  "configureWriteQuery isConstant k c opt p = AssertionFailed \<and> k = AQL_QUERY_READ
   \<or> (\<exists>p'. configureWriteQuery isConstant k c opt p = Returned False p'
          \<and> queryType (query p') = queryType (query p))
   \<or> (\<exists>p'. configureWriteQuery isConstant k c opt p = Returned True p'
          \<and> queryType (query p) = AQL_QUERY_READ \<and> k \<noteq> AQL_QUERY_READ
          \<and> queryType (query p') = k)"
  by (simp add: configureWriteQuery_def registerError_def Let_def split: option.splits)

lemma configureWriteQueries_after_write:
  "queryType (query p) \<noteq> AQL_QUERY_READ \<Longrightarrow>
   configureWriteQueries isConstant cs p = (bs, r) \<Longrightarrow>
   count_list bs True = 0 \<and> firstSuccess cs bs = None \<and>
   (case r of None \<Rightarrow> True | Some p' \<Rightarrow> queryType (query p') = queryType (query p))"
proof (induction cs arbitrary: p bs r)
  case Nil
  then show ?case by auto
next
  case (Cons c cs)
  let ?q = "p\<lparr>ast := (ast p)\<lparr>scopes := active_scopes c\<rparr>\<rparr>"
  from configureWriteQuery_cases[of isConstant "kind c" "target c" "options c" ?q]
  show ?case
  proof (elim disjE exE conjE)
    assume "configureWriteQuery isConstant (kind c) (target c) (options c) ?q = AssertionFailed"
    with Cons.prems show ?thesis by auto
  next
    fix p'
    assume a: "configureWriteQuery isConstant (kind c) (target c) (options c) ?q
                 = Returned False p'"
      and t: "queryType (query p') = queryType (query ?q)"
    obtain bs' r' where rest: "configureWriteQueries isConstant cs p' = (bs', r')"
      by (cases "configureWriteQueries isConstant cs p'") auto
    from t Cons.prems(1) have "queryType (query p') \<noteq> AQL_QUERY_READ" by simp
    from Cons.IH[OF this rest] a rest Cons.prems(2) t show ?thesis
      by (auto split: option.splits)
  next
    fix p'
    assume "queryType (query ?q) = AQL_QUERY_READ"
    with Cons.prems(1) show ?thesis by simp
  qed
qed

lemma configureWriteQueries_from_read:
  "queryType (query p) = AQL_QUERY_READ \<Longrightarrow>
   configureWriteQueries isConstant cs p = (bs, r) \<Longrightarrow>
   count_list bs True \<le> 1 \<and>
   (case r of
      None \<Rightarrow> True
    | Some p' \<Rightarrow> queryType (query p') =
        (case firstSuccess cs bs of None \<Rightarrow> AQL_QUERY_READ | Some k \<Rightarrow> k))"
proof (induction cs arbitrary: p bs r)
  case Nil
  then show ?case by auto
next
  case (Cons c cs)
  let ?q = "p\<lparr>ast := (ast p)\<lparr>scopes := active_scopes c\<rparr>\<rparr>"
  from configureWriteQuery_cases[of isConstant "kind c" "target c" "options c" ?q]
  show ?case
  proof (elim disjE exE conjE)
    assume "configureWriteQuery isConstant (kind c) (target c) (options c) ?q = AssertionFailed"
    with Cons.prems show ?thesis by auto
  next
    fix p'
    assume a: "configureWriteQuery isConstant (kind c) (target c) (options c) ?q
                 = Returned False p'"
      and t: "queryType (query p') = queryType (query ?q)"
    obtain bs' r' where rest: "configureWriteQueries isConstant cs p' = (bs', r')"
      by (cases "configureWriteQueries isConstant cs p'") auto
    from t Cons.prems(1) have "queryType (query p') = AQL_QUERY_READ" by simp
    from Cons.IH[OF this rest] a rest Cons.prems(2) show ?thesis
      by (auto split: option.splits)
  next
    fix p'
    assume a: "configureWriteQuery isConstant (kind c) (target c) (options c) ?q
                 = Returned True p'"
      and t: "queryType (query p') = kind c" and k: "kind c \<noteq> AQL_QUERY_READ"
    obtain bs' r' where rest: "configureWriteQueries isConstant cs p' = (bs', r')"
      by (cases "configureWriteQueries isConstant cs p'") auto
    from t k have "queryType (query p') \<noteq> AQL_QUERY_READ" by simp
    from configureWriteQueries_after_write[OF this rest] a rest Cons.prems(2) t
    show ?thesis
      by (auto split: option.splits)
  qed
qed

text \<open>
  C3, as stated, fails in one clause: a call on a query that is already a write query
  does not always fail with MULTI_MODIFY. After a successful INSERT, a REMOVE inside
  a subquery is answered with false, and the error that is registered is
  MODIFY_IN_SUBQUERY; no MULTI_MODIFY is registered at all.
\<close>

theorem second_write_in_subquery_counterexample:
  "fst (configureWriteQueries (\<lambda>_. True) write_then_subquery_write parser0) = [True, False]
   \<and> map_option (\<lambda>p'. errors (query p'))
        (snd (configureWriteQueries (\<lambda>_. True) write_then_subquery_write parser0))
      = Some [(TRI_ERROR_QUERY_MODIFY_IN_SUBQUERY, None)]"
  by (simp add: write_then_subquery_write_def parser0_def configureWriteQuery_def
      isInSubQuery_def registerError_def setWriteCollection_def)

text \<open>
  C3, amended. For every sequence of calls of \<^verbatim>\<open>configureWriteQuery\<close> that starts
  from classification READ, at most one call is answered with success, and if the
  run gets to its end the final classification is the kind of the first successful
  call (READ if there is none). A call with a write kind on a query that is already a
  write query returns false and changes nothing but the error sink, where it
  registers MULTI_MODIFY if the active scope is not a subquery and MODIFY_IN_SUBQUERY
  if it is.
\<close>

theorem at_most_one_write_recorded:
  assumes "queryType (query p) = AQL_QUERY_READ"
    and "configureWriteQueries isConstant cs p = (bs, r)"
    and "queryType (query q) \<noteq> AQL_QUERY_READ"
    and "k \<noteq> AQL_QUERY_READ"
  shows "count_list bs True \<le> 1
     \<and> (case r of
          None \<Rightarrow> True
        | Some p' \<Rightarrow> queryType (query p') =
            (case firstSuccess cs bs of None \<Rightarrow> AQL_QUERY_READ | Some k' \<Rightarrow> k'))
     \<and> configureWriteQuery isConstant k c opt q =
          Returned False (q\<lparr>query := (query q)\<lparr>errors := errors (query q) @
            [(if isInSubQuery (ast q) then TRI_ERROR_QUERY_MODIFY_IN_SUBQUERY
              else TRI_ERROR_QUERY_MULTI_MODIFY, None)]\<rparr>\<rparr>)"
  using configureWriteQueries_from_read[OF assms(1,2)]
    configureWriteQuery_already_write[OF assms(3,4)]
  by simp

theorem at_most_one_write_recorded_witness:
  "queryType (query parser0) = AQL_QUERY_READ
   \<and> queryType (query (parser0\<lparr>query := (query parser0)\<lparr>queryType := AQL_QUERY_INSERT\<rparr>\<rparr>))
        \<noteq> AQL_QUERY_READ
   \<and> AQL_QUERY_REMOVE \<noteq> AQL_QUERY_READ
   \<and> fst (configureWriteQueries (\<lambda>_. True) write_then_write parser0) = [True, False]
   \<and> count_list (fst (configureWriteQueries (\<lambda>_. True) write_then_write parser0)) True \<le> 1
   \<and> map_option (\<lambda>p'. queryType (query p'))
        (snd (configureWriteQueries (\<lambda>_. True) write_then_write parser0))
      = Some AQL_QUERY_INSERT
   \<and> map_option (\<lambda>p'. errors (query p'))
        (snd (configureWriteQueries (\<lambda>_. True) write_then_write parser0))
      = Some [(TRI_ERROR_QUERY_MULTI_MODIFY, None)]"
  using at_most_one_write_recorded
          [of parser0 "\<lambda>_. True" write_then_write
              "fst (configureWriteQueries (\<lambda>_. True) write_then_write parser0)"
              "snd (configureWriteQueries (\<lambda>_. True) write_then_write parser0)"
              "parser0\<lparr>query := (query parser0)\<lparr>queryType := AQL_QUERY_INSERT\<rparr>\<rparr>"
              AQL_QUERY_REMOVE 2 None]
  by (simp add: write_then_write_def parser0_def configureWriteQuery_def
      isInSubQuery_def registerError_def setWriteCollection_def)

section \<open>Properties of the parser driver\<close>

lemma endCurrent_cases:
  "endCurrent a = None \<and> numActive a = 0
   \<or> (\<exists>a'. endCurrent a = Some a' \<and> numActive a = Suc (numActive a'))"
  by (cases "scopes a" rule: rev_cases) (auto simp: endCurrent_def numActive_def)

text \<open>What \<^verbatim>\<open>parse\<close> does after the grammar has returned zero.\<close>

lemma parse_accepted:
  assumes "Aqlparse (p\<lparr>ast := start AQL_SCOPE_MAIN (ast p)\<rparr>) = Returned 0 p2"
  shows "snd (parse Aqlparse toJson p) =
     (case endCurrent (ast p2) of
        None \<Rightarrow> AssertionFailed
      | Some a3 \<Rightarrow>
          if numActive a3 \<noteq> 0 then AssertionFailed
          else Returned
                 \<lparr>result_collectionNames = collectionNames (query p2),
                  result_bindParameters = bindParameters a3,
                  result_json = toJson a3\<rparr>
                 (p2\<lparr>ast := a3\<rparr>))"
  using assms by (simp add: parse_def tryAqlparse_def catchAll_def Let_def andThen_def)

text \<open>\<^verbatim>\<open>parse\<close> returns a result only if the grammar has returned zero.\<close>

lemma parse_returned:
  assumes "snd (parse Aqlparse toJson p) = Returned res p'"
  shows "\<exists>p2. Aqlparse (p\<lparr>ast := start AQL_SCOPE_MAIN (ast p)\<rparr>) = Returned 0 p2"
  using assms
  by (cases "Aqlparse (p\<lparr>ast := start AQL_SCOPE_MAIN (ast p)\<rparr>)")
     (auto simp add: parse_def tryAqlparse_def catchAll_def Let_def andThen_def
       split: if_splits)

text \<open>
  C4, as stated, fails: \<^verbatim>\<open>parse\<close> does not look at the value stack. A grammar run
  that pushes a value and never pops it, and returns zero, makes \<^verbatim>\<open>parse\<close> return
  its result with that value still on the stack.
\<close>

theorem parse_leaves_value_counterexample:
  "(case snd (parse grammar_leaves_value (\<lambda>_. ''[]'') parser_new) of
      Returned res p' \<Rightarrow> stack p' = [7] \<and> numActive (ast p') = 0
    | Thrown e p' \<Rightarrow> False
    | AssertionFailed \<Rightarrow> False
    | Undefined \<Rightarrow> False)"
  by (simp add: parse_def tryAqlparse_def catchAll_def Let_def andThen_def
      grammar_leaves_value_def pushStack_def parser_new_def parser0_def start_def
      endCurrent_def numActive_def)

text \<open>
  C4, amended. After every successful return of \<^verbatim>\<open>parse\<close> the active-scope count
  is exactly 0: \<^verbatim>\<open>parse\<close> returns only when the grammar has returned zero, and
  the parser it returns is the one the grammar left, with the innermost scope closed
  and nothing else changed. When the grammar has returned zero and left exactly the
  main scope active, \<^verbatim>\<open>parse\<close> closes it and returns the result, assembled from
  the collection names of the query, the bind parameters and the serialized AST,
  whatever is on the value stack: the stack is neither checked nor changed. When
  the grammar has returned zero and left more scopes active than the main scope,
  \<^verbatim>\<open>parse\<close> closes one, finds the count not 0, and stops at its assertion
  without a result.
\<close>

theorem parse_success_scopes_closed:
  "(snd (parse Aqlparse toJson p) = Returned res p' \<longrightarrow>
      numActive (ast p') = 0
      \<and> (\<exists>p2. Aqlparse (p\<lparr>ast := start AQL_SCOPE_MAIN (ast p)\<rparr>) = Returned 0 p2
            \<and> stack p' = stack p2
            \<and> p' = p2\<lparr>ast := (ast p2)\<lparr>scopes := butlast (scopes (ast p2))\<rparr>\<rparr>))
   \<and> (Aqlparse (p\<lparr>ast := start AQL_SCOPE_MAIN (ast p)\<rparr>) = Returned 0 p2
       \<and> numActive (ast p2) = 1 \<longrightarrow>
      snd (parse Aqlparse toJson p) =
        Returned
          \<lparr>result_collectionNames = collectionNames (query p2),
           result_bindParameters = bindParameters (ast p2),
           result_json = toJson ((ast p2)\<lparr>scopes := []\<rparr>)\<rparr>
          (p2\<lparr>ast := (ast p2)\<lparr>scopes := []\<rparr>\<rparr>))
   \<and> (Aqlparse (p\<lparr>ast := start AQL_SCOPE_MAIN (ast p)\<rparr>) = Returned 0 p2
       \<and> 1 < numActive (ast p2) \<longrightarrow>
      snd (parse Aqlparse toJson p) = AssertionFailed)"
proof (intro conjI impI)
  assume r: "snd (parse Aqlparse toJson p) = Returned res p'"
  then obtain q where q: "Aqlparse (p\<lparr>ast := start AQL_SCOPE_MAIN (ast p)\<rparr>) = Returned 0 q"
    using parse_returned by blast
  from r q parse_accepted[of Aqlparse p q toJson]
  have "numActive (ast p') = 0 \<and> stack p' = stack q
        \<and> p' = q\<lparr>ast := (ast q)\<lparr>scopes := butlast (scopes (ast q))\<rparr>\<rparr>"
    by (auto simp add: endCurrent_def split: option.splits if_splits)
  with q show "numActive (ast p') = 0"
    and "\<exists>p2. Aqlparse (p\<lparr>ast := start AQL_SCOPE_MAIN (ast p)\<rparr>) = Returned 0 p2
            \<and> stack p' = stack p2
            \<and> p' = p2\<lparr>ast := (ast p2)\<lparr>scopes := butlast (scopes (ast p2))\<rparr>\<rparr>"
    by auto
next
  assume a: "Aqlparse (p\<lparr>ast := start AQL_SCOPE_MAIN (ast p)\<rparr>) = Returned 0 p2
       \<and> numActive (ast p2) = 1"
  then have "length (scopes (ast p2)) = Suc 0" by (simp add: numActive_def)
  then obtain x where x: "scopes (ast p2) = [x]" by (auto simp add: length_Suc_conv)
  from a x parse_accepted[of Aqlparse p p2 toJson]
  show "snd (parse Aqlparse toJson p) =
        Returned
          \<lparr>result_collectionNames = collectionNames (query p2),
           result_bindParameters = bindParameters (ast p2),
           result_json = toJson ((ast p2)\<lparr>scopes := []\<rparr>)\<rparr>
          (p2\<lparr>ast := (ast p2)\<lparr>scopes := []\<rparr>\<rparr>)"
    by (simp add: endCurrent_def numActive_def)
next
  assume "Aqlparse (p\<lparr>ast := start AQL_SCOPE_MAIN (ast p)\<rparr>) = Returned 0 p2
       \<and> 1 < numActive (ast p2)"
  with endCurrent_cases[of "ast p2"] parse_accepted[of Aqlparse p p2 toJson]
  show "snd (parse Aqlparse toJson p) = AssertionFailed"
    by auto
qed

theorem parse_success_scopes_closed_witness:
  "snd (parse grammar_accepts (\<lambda>_. ''[]'') parser_new) =
      Returned \<lparr>result_collectionNames = [], result_bindParameters = [],
                result_json = ''[]''\<rparr> parser_new
   \<and> numActive (ast parser_new) = 0
   \<and> grammar_leaves_value (parser_new\<lparr>ast := start AQL_SCOPE_MAIN (ast parser_new)\<rparr>)
        = Returned 0 (parser_new\<lparr>ast := (ast parser_new)\<lparr>scopes := [AQL_SCOPE_MAIN]\<rparr>,
                                  stack := [7]\<rparr>)
   \<and> numActive (ast (parser_new\<lparr>ast := (ast parser_new)\<lparr>scopes := [AQL_SCOPE_MAIN]\<rparr>,
                                  stack := [7]\<rparr>)) = 1
   \<and> snd (parse grammar_leaves_value (\<lambda>_. ''[]'') parser_new) =
      Returned \<lparr>result_collectionNames = [], result_bindParameters = [],
                result_json = ''[]''\<rparr> (parser_new\<lparr>stack := [7]\<rparr>)
   \<and> grammar_leaves_scope (parser_new\<lparr>ast := start AQL_SCOPE_MAIN (ast parser_new)\<rparr>)
        = Returned 0 (parser_new\<lparr>ast := (ast parser_new)
                        \<lparr>scopes := [AQL_SCOPE_MAIN, AQL_SCOPE_SUBQUERY]\<rparr>\<rparr>)
   \<and> 1 < numActive (ast (parser_new\<lparr>ast := (ast parser_new)
                        \<lparr>scopes := [AQL_SCOPE_MAIN, AQL_SCOPE_SUBQUERY]\<rparr>\<rparr>))
   \<and> snd (parse grammar_leaves_scope (\<lambda>_. ''[]'') parser_new) = AssertionFailed"
  using parse_success_scopes_closed
          [of grammar_accepts "\<lambda>_. ''[]''" parser_new
              "\<lparr>result_collectionNames = [], result_bindParameters = [],
                result_json = ''[]''\<rparr>" parser_new]
        parse_success_scopes_closed
          [of grammar_leaves_value "\<lambda>_. ''[]''" parser_new _ _
              "parser_new\<lparr>ast := (ast parser_new)\<lparr>scopes := [AQL_SCOPE_MAIN]\<rparr>,
                          stack := [7]\<rparr>"]
        parse_success_scopes_closed
          [of grammar_leaves_scope "\<lambda>_. ''[]''" parser_new _ _
              "parser_new\<lparr>ast := (ast parser_new)
                 \<lparr>scopes := [AQL_SCOPE_MAIN, AQL_SCOPE_SUBQUERY]\<rparr>\<rparr>"]
  by (simp add: parse_def tryAqlparse_def catchAll_def Let_def andThen_def endCurrent_def
      numActive_def grammar_accepts_def grammar_leaves_scope_def grammar_leaves_value_def
      pushStack_def parser_new_def parser0_def start_def)

text \<open>
  C7. On every run of \<^verbatim>\<open>parse\<close> in which the grammar comes back to it, by
  returning (zero or not) or by throwing, the scanner calls that \<^verbatim>\<open>parse\<close> makes
  are: acquire, attach, release, in this order. So the scanner is released exactly
  once, after it was acquired, on normal completion, on a grammar failure and on any
  exception that leaves the grammar run.
\<close>

theorem parse_releases_scanner_once:
  assumes "Aqlparse (p\<lparr>ast := start AQL_SCOPE_MAIN (ast p)\<rparr>) \<noteq> AssertionFailed"
    and "Aqlparse (p\<lparr>ast := start AQL_SCOPE_MAIN (ast p)\<rparr>) \<noteq> Undefined"
  shows "fst (parse Aqlparse toJson p) = [Aqllex_init, Aqlset_extra, Aqllex_destroy]
     \<and> count_list (fst (parse Aqlparse toJson p)) Aqllex_destroy = 1"
  using assms
  by (cases "Aqlparse (p\<lparr>ast := start AQL_SCOPE_MAIN (ast p)\<rparr>)")
     (simp_all add: parse_def tryAqlparse_def catchAll_def Let_def)

theorem parse_releases_scanner_once_witness:
  "grammar_throws (parser_new\<lparr>ast := start AQL_SCOPE_MAIN (ast parser_new)\<rparr>)
      \<noteq> AssertionFailed
   \<and> grammar_throws (parser_new\<lparr>ast := start AQL_SCOPE_MAIN (ast parser_new)\<rparr>)
      \<noteq> Undefined
   \<and> fst (parse grammar_throws (\<lambda>_. ''[]'') parser_new)
      = [Aqllex_init, Aqlset_extra, Aqllex_destroy]
   \<and> count_list (fst (parse grammar_throws (\<lambda>_. ''[]'') parser_new)) Aqllex_destroy = 1"
  using parse_releases_scanner_once [of grammar_throws parser_new "\<lambda>_. ''[]''"]
  by (simp add: grammar_throws_def)

text \<open>
  C8. If the grammar returns a non-zero status, \<^verbatim>\<open>parse\<close> releases the scanner
  and throws \<^verbatim>\<open>TRI_ERROR_QUERY_PARSE\<close>. No result is produced, and the parser is
  left exactly as the grammar left it: the main scope is not closed.
\<close>

theorem parse_grammar_failure:
  assumes "Aqlparse (p\<lparr>ast := start AQL_SCOPE_MAIN (ast p)\<rparr>) = Returned rc p2"
    and "rc \<noteq> 0"
  shows "parse Aqlparse toJson p =
     ([Aqllex_init, Aqlset_extra, Aqllex_destroy], Thrown TRI_ERROR_QUERY_PARSE p2)"
  using assms by (simp add: parse_def tryAqlparse_def catchAll_def Let_def andThen_def)

theorem parse_grammar_failure_witness:
  "grammar_rejects (parser_new\<lparr>ast := start AQL_SCOPE_MAIN (ast parser_new)\<rparr>)
     = Returned 1 (parser_new\<lparr>ast := start AQL_SCOPE_MAIN (ast parser_new)\<rparr>)
   \<and> (1::int) \<noteq> 0
   \<and> parse grammar_rejects (\<lambda>_. ''[]'') parser_new =
       ([Aqllex_init, Aqlset_extra, Aqllex_destroy],
        Thrown TRI_ERROR_QUERY_PARSE
          (parser_new\<lparr>ast := start AQL_SCOPE_MAIN (ast parser_new)\<rparr>))
   \<and> numActive (ast (parser_new\<lparr>ast := start AQL_SCOPE_MAIN (ast parser_new)\<rparr>)) = 1"
  using parse_grammar_failure
          [of grammar_rejects parser_new 1
              "parser_new\<lparr>ast := start AQL_SCOPE_MAIN (ast parser_new)\<rparr>" "\<lambda>_. ''[]''"]
  by (simp add: grammar_rejects_def numActive_def start_def parser_new_def parser0_def)

section \<open>Properties of the list and array hooks\<close>

lemma pushList_step:
  assumes "stack p = s @ [t]" "t < length (nodes (ast p))" "type (nodes (ast p) ! t) = NODE_TYPE_LIST"
  shows "pushList n p = Returned ()
     (p\<lparr>ast := (ast p)\<lparr>nodes := (nodes (ast p))
        [t := (nodes (ast p) ! t)\<lparr>members := members (nodes (ast p) ! t) @ [n]\<rparr>]\<rparr>\<rparr>)"
  using assms by (simp add: pushList_def peekStack_def andThen_def addMember_def)

lemma pushLists_all:
  assumes "stack p = s @ [t]" "t < length (nodes (ast p))" "type (nodes (ast p) ! t) = NODE_TYPE_LIST"
  shows "pushLists ns p = Returned ()
     (p\<lparr>ast := (ast p)\<lparr>nodes := (nodes (ast p))
        [t := (nodes (ast p) ! t)\<lparr>members := members (nodes (ast p) ! t) @ ns\<rparr>]\<rparr>\<rparr>)"
  using assms
proof (induction ns arbitrary: p)
  case Nil
  then show ?case by simp
next
  case (Cons n ns)
  let ?p1 = "p\<lparr>ast := (ast p)\<lparr>nodes := (nodes (ast p))
        [t := (nodes (ast p) ! t)\<lparr>members := members (nodes (ast p) ! t) @ [n]\<rparr>]\<rparr>\<rparr>"
  have 1: "pushList n p = Returned () ?p1" using Cons.prems by (rule pushList_step)
  have "pushLists ns ?p1 = Returned ()
     (?p1\<lparr>ast := (ast ?p1)\<lparr>nodes := (nodes (ast ?p1))
        [t := (nodes (ast ?p1) ! t)\<lparr>members := members (nodes (ast ?p1) ! t) @ ns\<rparr>]\<rparr>\<rparr>)"
    using Cons.prems by (intro Cons.IH) simp_all
  with 1 Cons.prems(2) show ?case by (simp add: andThen_def)
qed

lemma pushArray_step:
  assumes "stack p = s @ [t]" "t < length (nodes (ast p))" "type (nodes (ast p) ! t) = NODE_TYPE_ARRAY"
  shows "pushArray k n p = Returned ()
     (p\<lparr>ast := (ast p)\<lparr>nodes := (nodes (ast p) @ [arrayElement k n])
        [t := (nodes (ast p) ! t)\<lparr>members := members (nodes (ast p) ! t) @ [length (nodes (ast p))]\<rparr>]\<rparr>\<rparr>)"
  using assms by (simp add: pushArray_def peekStack_def andThen_def addMember_def createNodeArrayElement_def nth_append)

lemma upt_first: "[m ..< Suc (m + k)] = m # [Suc m ..< Suc (m + k)]"
  by (simp add: upt_conv_Cons del: upt_Suc)

lemma pushArrays_all:
  assumes "stack p = s @ [t]" "t < length (nodes (ast p))" "type (nodes (ast p) ! t) = NODE_TYPE_ARRAY"
  shows "pushArrays kvs p = Returned ()
     (p\<lparr>ast := (ast p)\<lparr>nodes := (nodes (ast p) @ map (\<lambda>(k, n). arrayElement k n) kvs)
        [t := (nodes (ast p) ! t)\<lparr>members := members (nodes (ast p) ! t) @
           [length (nodes (ast p)) ..< length (nodes (ast p)) + length kvs]\<rparr>]\<rparr>\<rparr>)"
  using assms
proof (induction kvs arbitrary: p)
  case Nil
  then show ?case by simp
next
  case (Cons kv kvs)
  obtain k n where kv: "kv = (k, n)" by (cases kv)
  let ?p1 = "p\<lparr>ast := (ast p)\<lparr>nodes := (nodes (ast p) @ [arrayElement k n])
        [t := (nodes (ast p) ! t)\<lparr>members := members (nodes (ast p) ! t) @ [length (nodes (ast p))]\<rparr>]\<rparr>\<rparr>"
  have 1: "pushArray k n p = Returned () ?p1" using Cons.prems by (rule pushArray_step)
  have "pushArrays kvs ?p1 = Returned ()
     (?p1\<lparr>ast := (ast ?p1)\<lparr>nodes := (nodes (ast ?p1) @ map (\<lambda>(k, n). arrayElement k n) kvs)
        [t := (nodes (ast ?p1) ! t)\<lparr>members := members (nodes (ast ?p1) ! t) @
           [length (nodes (ast ?p1)) ..< length (nodes (ast ?p1)) + length kvs]\<rparr>]\<rparr>\<rparr>)"
    using Cons.prems by (intro Cons.IH) (simp_all add: nth_append)
  with 1 Cons.prems(2) show ?case
    by (simp add: andThen_def kv nth_append list_update_append1 upt_first del: upt_Suc)
qed


text \<open>
  C10. Let the top of the value stack be the address of a node. If the node is a list,
  \<^verbatim>\<open>pushList(node)\<close> returns with the stack and the query as they were and with
  \<open>node\<close> appended to the members of the top node; a run of such calls appends
  the nodes in the order of the calls and changes no other node. If the node is an
  array, \<^verbatim>\<open>pushArray(name, node)\<close> returns with the stack and the query as they
  were, a new element node that holds the name and the one member \<open>node\<close>, and
  the address of that element appended to the members of the top node; a run of
  such calls creates the elements, and appends them, in the order of the calls,
  duplicate names included, and changes no other node that was there. On a top node
  of another type, and on an empty stack, both calls stop at an assertion.
\<close>

theorem pushList_pushArray_frame:
  assumes "stack p = s @ [t]" and "t < length (nodes (ast p))"
  shows
   "(type (nodes (ast p) ! t) = NODE_TYPE_LIST \<longrightarrow>
       (\<exists>p1. pushList n p = Returned () p1
          \<and> stack p1 = stack p \<and> query p1 = query p
          \<and> members (nodes (ast p1) ! t) = members (nodes (ast p) ! t) @ [n])
     \<and> (\<exists>p'. pushLists ns p = Returned () p'
          \<and> stack p' = stack p \<and> query p' = query p
          \<and> members (nodes (ast p') ! t) = members (nodes (ast p) ! t) @ ns
          \<and> type (nodes (ast p') ! t) = NODE_TYPE_LIST
          \<and> nodes (ast p') = (nodes (ast p))[t := nodes (ast p') ! t]))
    \<and> (type (nodes (ast p) ! t) \<noteq> NODE_TYPE_LIST \<longrightarrow> pushList n p = AssertionFailed)
    \<and> (type (nodes (ast p) ! t) = NODE_TYPE_ARRAY \<longrightarrow>
       (\<exists>p1. pushArray k n p = Returned () p1
          \<and> stack p1 = stack p \<and> query p1 = query p
          \<and> members (nodes (ast p1) ! t)
               = members (nodes (ast p) ! t) @ [length (nodes (ast p))]
          \<and> nodes (ast p1) ! length (nodes (ast p)) = arrayElement k n)
     \<and> (\<exists>p'. pushArrays kvs p = Returned () p'
          \<and> stack p' = stack p \<and> query p' = query p
          \<and> members (nodes (ast p') ! t)
               = members (nodes (ast p) ! t)
                 @ [length (nodes (ast p)) ..< length (nodes (ast p)) + length kvs]
          \<and> drop (length (nodes (ast p))) (nodes (ast p'))
               = map (\<lambda>(k, n). arrayElement k n) kvs
          \<and> type (nodes (ast p') ! t) = NODE_TYPE_ARRAY
          \<and> take (length (nodes (ast p))) (nodes (ast p'))
               = (nodes (ast p))[t := nodes (ast p') ! t]))
    \<and> (type (nodes (ast p) ! t) \<noteq> NODE_TYPE_ARRAY \<longrightarrow> pushArray k n p = AssertionFailed)
    \<and> pushList n (p\<lparr>stack := []\<rparr>) = AssertionFailed
    \<and> pushArray k n (p\<lparr>stack := []\<rparr>) = AssertionFailed"
proof (intro conjI impI)
  assume l: "type (nodes (ast p) ! t) = NODE_TYPE_LIST"
  from pushList_step[OF assms l, of n] assms(2)
  show "\<exists>p1. pushList n p = Returned () p1
          \<and> stack p1 = stack p \<and> query p1 = query p
          \<and> members (nodes (ast p1) ! t) = members (nodes (ast p) ! t) @ [n]"
    by simp
  from pushLists_all[OF assms l, of ns] assms(2) l
  show "\<exists>p'. pushLists ns p = Returned () p'
          \<and> stack p' = stack p \<and> query p' = query p
          \<and> members (nodes (ast p') ! t) = members (nodes (ast p) ! t) @ ns
          \<and> type (nodes (ast p') ! t) = NODE_TYPE_LIST
          \<and> nodes (ast p') = (nodes (ast p))[t := nodes (ast p') ! t]"
    by simp
next
  assume "type (nodes (ast p) ! t) \<noteq> NODE_TYPE_LIST"
  with assms show "pushList n p = AssertionFailed"
    by (simp add: pushList_def peekStack_def andThen_def)
next
  assume a: "type (nodes (ast p) ! t) = NODE_TYPE_ARRAY"
  from pushArray_step[OF assms a, of k n] assms(2)
  show "\<exists>p1. pushArray k n p = Returned () p1
          \<and> stack p1 = stack p \<and> query p1 = query p
          \<and> members (nodes (ast p1) ! t)
               = members (nodes (ast p) ! t) @ [length (nodes (ast p))]
          \<and> nodes (ast p1) ! length (nodes (ast p)) = arrayElement k n"
    by (simp add: nth_append list_update_append1)
  from pushArrays_all[OF assms a, of kvs] assms(2) a
  show "\<exists>p'. pushArrays kvs p = Returned () p'
          \<and> stack p' = stack p \<and> query p' = query p
          \<and> members (nodes (ast p') ! t)
               = members (nodes (ast p) ! t)
                 @ [length (nodes (ast p)) ..< length (nodes (ast p)) + length kvs]
          \<and> drop (length (nodes (ast p))) (nodes (ast p'))
               = map (\<lambda>(k, n). arrayElement k n) kvs
          \<and> type (nodes (ast p') ! t) = NODE_TYPE_ARRAY
          \<and> take (length (nodes (ast p))) (nodes (ast p'))
               = (nodes (ast p))[t := nodes (ast p') ! t]"
    by (simp add: nth_append list_update_append1)
next
  assume "type (nodes (ast p) ! t) \<noteq> NODE_TYPE_ARRAY"
  with assms show "pushArray k n p = AssertionFailed"
    by (simp add: pushArray_def peekStack_def andThen_def)
next
  show "pushList n (p\<lparr>stack := []\<rparr>) = AssertionFailed"
    by (simp add: pushList_def peekStack_def andThen_def)
  show "pushArray k n (p\<lparr>stack := []\<rparr>) = AssertionFailed"
    by (simp add: pushArray_def peekStack_def andThen_def)
qed

theorem pushList_pushArray_frame_witness:
  "stack parser_in_list = [] @ [0] \<and> 0 < length (nodes (ast parser_in_list))
   \<and> type (nodes (ast parser_in_list) ! 0) = NODE_TYPE_LIST
   \<and> (\<exists>p'. pushLists [2, 3, 2] parser_in_list = Returned () p'
         \<and> stack p' = [0]
         \<and> members (nodes (ast p') ! 0) = [2, 3, 2])
   \<and> pushArray ''a'' 2 parser_in_list = AssertionFailed
   \<and> stack parser_in_array = [] @ [1] \<and> 1 < length (nodes (ast parser_in_array))
   \<and> type (nodes (ast parser_in_array) ! 1) = NODE_TYPE_ARRAY
   \<and> (\<exists>p'. pushArrays [(''a'', 2), (''b'', 3), (''a'', 3)] parser_in_array = Returned () p'
         \<and> stack p' = [1]
         \<and> members (nodes (ast p') ! 1) = [4, 5, 6]
         \<and> drop 4 (nodes (ast p')) = [arrayElement ''a'' 2, arrayElement ''b'' 3, arrayElement ''a'' 3])
   \<and> pushList 2 parser_in_array = AssertionFailed"
  using pushList_pushArray_frame[of parser_in_list "[]" 0 2 "[2, 3, 2]" "''a''" "[]"]
        pushList_pushArray_frame[of parser_in_array "[]" 1 2 "[]" "''a''" "[(''a'', 2), (''b'', 3), (''a'', 3)]"]
  by (simp add: parser_in_list_def parser_in_array_def literal_nodes_def parser0_def
      pushList_def pushArray_def peekStack_def andThen_def addMember_def
      createNodeArrayElement_def)

section \<open>Properties of the error reporting\<close>

text \<open>The loop of spaces overwrites the first \<open>n\<close> cells and leaves the rest.\<close>

lemma fold_spaces:
  "n \<le> length buf \<Longrightarrow> fold (\<lambda>i b. b[i := x]) [0 ..< n] buf = replicate n x @ drop n buf"
proof (induction n)
  case 0
  then show ?case by simp
next
  case (Suc n)
  then have "n < length buf" by simp
  then have "drop n buf = buf ! n # drop (Suc n) buf" by (simp add: Cons_nth_drop_Suc)
  with Suc show ?case
    by (simp add: list_update_append replicate_append_same)
qed


lemma upt_three: "[c ..< c + 10] = c # Suc c # Suc (Suc c) # [c + 3 ..< c + 10]"
  by (simp add: upt_conv_Cons del: upt_Suc)

lemma spaces_written:
  "fold (\<lambda>i b. b[i := CHR '' '']) [0 ..< c] (map g [0 ..< c + 10])
     = replicate c (CHR '' '') @ map g [c ..< c + 10]"
proof -
  have "fold (\<lambda>i b. b[i := CHR '' '']) [0 ..< c] (map g [0 ..< c + 10])
     = replicate c (CHR '' '') @ drop c (map g [0 ..< c + 10])"
    by (rule fold_spaces) simp
  then show ?thesis by (simp add: drop_map)
qed

lemma takeWhile_replicate_append:
  "P x \<Longrightarrow> takeWhile P (replicate m x @ ys) = replicate m x @ takeWhile P ys"
  by (induction m) auto

lemma arrowpointer_zero: "arrowpointer g 0 = ''^^''"
  by (simp add: arrowpointer_def upt_three[of 0, simplified] del: upt_Suc)

lemma arrowpointer_Suc: "arrowpointer g (Suc m) = replicate m (CHR '' '') @ ''^^^''"
proof -
  let ?c = "Suc m"
  have 1: "fold (\<lambda>i b. b[i := CHR '' '']) [0 ..< ?c] (map g [0 ..< ?c + 10])
     = replicate m (CHR '' '') @ CHR '' '' # g ?c # g (Suc ?c) # g (Suc (Suc ?c)) # map g [?c + 3 ..< ?c + 10]"
    unfolding spaces_written upt_three by (simp add: replicate_append_same)
  show ?thesis
    unfolding arrowpointer_def Let_def 1
    by (simp add: list_update_append takeWhile_replicate_append)
qed

lemma arrowpointer_shape:
  "arrowpointer g c = (if c = 0 then ''^^'' else replicate (c - 1) (CHR '' '') @ ''^^^'')"
  by (cases c) (simp_all add: arrowpointer_zero arrowpointer_Suc)

text \<open>A call that meets the assertions, with a column in range, registers one error.\<close>

lemma registerParseError_returns:
  assumes "errorCode \<noteq> TRI_ERROR_NO_ERROR" and "0 \<le> column" and "column \<le> 2147483637"
  shows "registerParseError extractRegion garbage errorCode (Some message) line column p =
     Returned () (p\<lparr>query := (query p)\<lparr>errors := errors (query p) @
       [(errorCode, Some (take 511
          (parseErrorText message (extractRegion (query p) line column) line (column + 1)
             (queryString (query p)) (arrowpointer garbage (nat column)))))]\<rparr>\<rparr>)"
  using assms
  by (simp add: registerParseError_def Let_def snprintf_def registerError_def)

text \<open>
  C5, as stated, fails: for column 1 the marker is three carets and no space, not one
  space followed by two carets.
\<close>

theorem arrowpointer_column_one_counterexample:
  "arrowpointer (\<lambda>_. CHR ''?'') 1 = ''^^^''
   \<and> arrowpointer (\<lambda>_. CHR ''?'') 1 \<noteq> replicate 1 (CHR '' '') @ ''^^''"
  by (simp add: arrowpointer_Suc[of _ 0, simplified])

text \<open>
  C5, amended. Whatever the buffer held before, the marker that
  \<^verbatim>\<open>registerParseError\<close> builds for column 0 is two carets, and the marker for a
  column \<open>c > 0\<close> is \<open>c - 1\<close> spaces followed by three carets: the last space
  of the run of \<open>c\<close> spaces is overwritten, so the carets sit under the columns
  \<open>c - 1\<close>, \<open>c\<close> and \<open>c + 1\<close>. The marker is printed as the last line of the
  text of the diagnostic, and what is registered is the first 511 characters of that
  text. So when the text has at most 511 characters, the registered diagnostic ends
  with a newline, this marker and a newline; when the text is longer, it is cut and
  the marker line is cut with it, or missing.
\<close>

theorem arrowpointer_marker_shape:
  "arrowpointer garbage c
     = (if c = 0 then ''^^'' else replicate (c - 1) (CHR '' '') @ ''^^^'')
   \<and> (errorCode \<noteq> TRI_ERROR_NO_ERROR \<and> 0 \<le> column \<and> column \<le> 2147483637 \<longrightarrow>
        registerParseError extractRegion garbage errorCode (Some message) line column p =
          Returned () (p\<lparr>query := (query p)\<lparr>errors := errors (query p) @
            [(errorCode, Some (take 511
               (parseErrorText message (extractRegion (query p) line column) line
                  (column + 1) (queryString (query p))
                  (if column = 0 then ''^^''
                   else replicate (nat column - 1) (CHR '' '') @ ''^^^''))))]\<rparr>\<rparr>))
   \<and> (errorCode \<noteq> TRI_ERROR_NO_ERROR \<and> 0 \<le> column \<and> column \<le> 2147483637
       \<and> length (parseErrorText message (extractRegion (query p) line column) line
                  (column + 1) (queryString (query p))
                  (if column = 0 then ''^^''
                   else replicate (nat column - 1) (CHR '' '') @ ''^^^'')) \<le> 511 \<longrightarrow>
        (\<exists>before.
           registerParseError extractRegion garbage errorCode (Some message) line column p =
             Returned () (p\<lparr>query := (query p)\<lparr>errors := errors (query p) @
               [(errorCode, Some (before @ [CHR 0x0A]
                  @ (if column = 0 then ''^^''
                     else replicate (nat column - 1) (CHR '' '') @ ''^^^'')
                  @ [CHR 0x0A]))]\<rparr>\<rparr>)
           \<and> before =
               message @ '' near '' @ [CHR 0x27] @ extractRegion (query p) line column
                 @ [CHR 0x27] @ '' at position '' @ printf_d line @ '':''
                 @ printf_d (column + 1) @ '':'' @ [CHR 0x0A] @ queryString (query p)))
   \<and> (errorCode \<noteq> TRI_ERROR_NO_ERROR \<and> 0 \<le> column \<and> column \<le> 2147483637
       \<and> 511 \<le> length (message @ '' near '' @ [CHR 0x27]
                    @ extractRegion (query p) line column
                    @ [CHR 0x27] @ '' at position '' @ printf_d line @ '':''
                    @ printf_d (column + 1) @ '':'' @ [CHR 0x0A] @ queryString (query p)) \<longrightarrow>
        registerParseError extractRegion garbage errorCode (Some message) line column p =
          Returned () (p\<lparr>query := (query p)\<lparr>errors := errors (query p) @
            [(errorCode, Some (take 511
               (message @ '' near '' @ [CHR 0x27] @ extractRegion (query p) line column
                  @ [CHR 0x27] @ '' at position '' @ printf_d line @ '':''
                  @ printf_d (column + 1) @ '':'' @ [CHR 0x0A]
                  @ queryString (query p))))]\<rparr>\<rparr>))"
proof (intro conjI impI)
  show "arrowpointer garbage c
     = (if c = 0 then ''^^'' else replicate (c - 1) (CHR '' '') @ ''^^^'')"
    by (rule arrowpointer_shape)
next
  assume "errorCode \<noteq> TRI_ERROR_NO_ERROR \<and> 0 \<le> column \<and> column \<le> 2147483637"
  with registerParseError_returns[of errorCode column extractRegion garbage message line p]
  show "registerParseError extractRegion garbage errorCode (Some message) line column p =
          Returned () (p\<lparr>query := (query p)\<lparr>errors := errors (query p) @
            [(errorCode, Some (take 511
               (parseErrorText message (extractRegion (query p) line column) line
                  (column + 1) (queryString (query p))
                  (if column = 0 then ''^^''
                   else replicate (nat column - 1) (CHR '' '') @ ''^^^''))))]\<rparr>\<rparr>)"
    by (auto simp add: arrowpointer_shape)
next
  assume a: "errorCode \<noteq> TRI_ERROR_NO_ERROR \<and> 0 \<le> column \<and> column \<le> 2147483637
       \<and> length (parseErrorText message (extractRegion (query p) line column) line
                  (column + 1) (queryString (query p))
                  (if column = 0 then ''^^''
                   else replicate (nat column - 1) (CHR '' '') @ ''^^^'')) \<le> 511"
  let ?marker = "if column = 0 then ''^^''
                   else replicate (nat column - 1) (CHR '' '') @ ''^^^''"
  let ?full = "parseErrorText message (extractRegion (query p) line column) line
                  (column + 1) (queryString (query p)) ?marker"
  from a have m: "arrowpointer garbage (nat column) = ?marker"
    by (auto simp add: arrowpointer_shape)
  from a have "take 511 ?full = ?full" by simp
  with a m registerParseError_returns[of errorCode column extractRegion garbage message line p]
  have "registerParseError extractRegion garbage errorCode (Some message) line column p =
          Returned () (p\<lparr>query := (query p)\<lparr>errors := errors (query p) @
            [(errorCode, Some ?full)]\<rparr>\<rparr>)"
    by simp
  then show "\<exists>before.
           registerParseError extractRegion garbage errorCode (Some message) line column p =
             Returned () (p\<lparr>query := (query p)\<lparr>errors := errors (query p) @
               [(errorCode, Some (before @ [CHR 0x0A]
                  @ (if column = 0 then ''^^''
                     else replicate (nat column - 1) (CHR '' '') @ ''^^^'')
                  @ [CHR 0x0A]))]\<rparr>\<rparr>)
           \<and> before =
               message @ '' near '' @ [CHR 0x27] @ extractRegion (query p) line column
                 @ [CHR 0x27] @ '' at position '' @ printf_d line @ '':''
                 @ printf_d (column + 1) @ '':'' @ [CHR 0x0A] @ queryString (query p)"
    by (simp add: parseErrorText_def)
next
  let ?before = "message @ '' near '' @ [CHR 0x27] @ extractRegion (query p) line column
                  @ [CHR 0x27] @ '' at position '' @ printf_d line @ '':''
                  @ printf_d (column + 1) @ '':'' @ [CHR 0x0A] @ queryString (query p)"
  assume a: "errorCode \<noteq> TRI_ERROR_NO_ERROR \<and> 0 \<le> column \<and> column \<le> 2147483637
       \<and> 511 \<le> length ?before"
  have split: "parseErrorText message (extractRegion (query p) line column) line
          (column + 1) (queryString (query p)) (arrowpointer garbage (nat column))
        = ?before @ ([CHR 0x0A] @ arrowpointer garbage (nat column) @ [CHR 0x0A])"
    by (simp add: parseErrorText_def)
  from a have "take 511 (?before @ ([CHR 0x0A] @ arrowpointer garbage (nat column) @ [CHR 0x0A]))
        = take 511 ?before"
    by (simp only: take_append) simp
  with a split registerParseError_returns[of errorCode column extractRegion garbage message line p]
  show "registerParseError extractRegion garbage errorCode (Some message) line column p =
          Returned () (p\<lparr>query := (query p)\<lparr>errors := errors (query p) @
            [(errorCode, Some (take 511 ?before))]\<rparr>\<rparr>)"
    by simp
qed

theorem arrowpointer_marker_shape_witness:
  "(arrowpointer (\<lambda>_. CHR ''?'') 7 = ''      ^^^''
    \<and> TRI_ERROR_QUERY_PARSE \<noteq> TRI_ERROR_NO_ERROR \<and> (0::int) \<le> 7 \<and> (7::int) \<le> 2147483637
    \<and> length (parseErrorText ''syntax error'' ''{a:1}'' 1 8 ''INSERT {a:1} INTO c''
                  ''      ^^^'') \<le> 511
    \<and> registerParseError (\<lambda>_ _ _. ''{a:1}'') (\<lambda>_. CHR ''?'') TRI_ERROR_QUERY_PARSE
         (Some ''syntax error'') 1 7 parser0 =
           Returned () (parser0\<lparr>query := (query parser0)\<lparr>errors :=
             [(TRI_ERROR_QUERY_PARSE,
               Some (''syntax error near '' @ [CHR 0x27] @ ''{a:1}'' @ [CHR 0x27]
                     @ '' at position 1:8:'' @ [CHR 0x0A]
                     @ ''INSERT {a:1} INTO c'' @ [CHR 0x0A]
                     @ ''      ^^^'' @ [CHR 0x0A]))]\<rparr>\<rparr>))
   \<and> (511 \<le> length (''syntax error near '' @ [CHR 0x27] @ ''x'' @ [CHR 0x27]
                    @ '' at position 1:4:'' @ [CHR 0x0A]
                    @ queryString (query parser_long_query))
    \<and> (case registerParseError (\<lambda>_ _ _. ''x'') (\<lambda>_. CHR ''?'') TRI_ERROR_QUERY_PARSE
               (Some ''syntax error'') 1 3 parser_long_query of
          Returned u p' \<Rightarrow>
            map (\<lambda>e. map_option (\<lambda>d. length (filter (\<lambda>ch. ch = CHR ''^'') d)) (snd e))
              (errors (query p')) = [Some 0]
        | Thrown e p' \<Rightarrow> False
        | AssertionFailed \<Rightarrow> False
        | Undefined \<Rightarrow> False))"
proof (rule conjI)
  show "arrowpointer (\<lambda>_. CHR ''?'') 7 = ''      ^^^''
    \<and> TRI_ERROR_QUERY_PARSE \<noteq> TRI_ERROR_NO_ERROR \<and> (0::int) \<le> 7 \<and> (7::int) \<le> 2147483637
    \<and> length (parseErrorText ''syntax error'' ''{a:1}'' 1 8 ''INSERT {a:1} INTO c''
                  ''      ^^^'') \<le> 511
    \<and> registerParseError (\<lambda>_ _ _. ''{a:1}'') (\<lambda>_. CHR ''?'') TRI_ERROR_QUERY_PARSE
         (Some ''syntax error'') 1 7 parser0 =
           Returned () (parser0\<lparr>query := (query parser0)\<lparr>errors :=
             [(TRI_ERROR_QUERY_PARSE,
               Some (''syntax error near '' @ [CHR 0x27] @ ''{a:1}'' @ [CHR 0x27]
                     @ '' at position 1:8:'' @ [CHR 0x0A]
                     @ ''INSERT {a:1} INTO c'' @ [CHR 0x0A]
                     @ ''      ^^^'' @ [CHR 0x0A]))]\<rparr>\<rparr>)"
    using arrowpointer_marker_shape
            [of "\<lambda>_. CHR ''?''" 7 TRI_ERROR_QUERY_PARSE 7 "\<lambda>_ _ _. ''{a:1}''"
                "''syntax error''" 1 parser0]
    by (simp add: parser0_def parseErrorText_def printf_d_def eval_nat_numeral)
next
  show "511 \<le> length (''syntax error near '' @ [CHR 0x27] @ ''x'' @ [CHR 0x27]
                    @ '' at position 1:4:'' @ [CHR 0x0A]
                    @ queryString (query parser_long_query))
    \<and> (case registerParseError (\<lambda>_ _ _. ''x'') (\<lambda>_. CHR ''?'') TRI_ERROR_QUERY_PARSE
               (Some ''syntax error'') 1 3 parser_long_query of
          Returned u p' \<Rightarrow>
            map (\<lambda>e. map_option (\<lambda>d. length (filter (\<lambda>ch. ch = CHR ''^'') d)) (snd e))
              (errors (query p')) = [Some 0]
        | Thrown e p' \<Rightarrow> False
        | AssertionFailed \<Rightarrow> False
        | Undefined \<Rightarrow> False)"
    using arrowpointer_marker_shape
            [of "\<lambda>_. CHR ''?''" 7 TRI_ERROR_QUERY_PARSE 3 "\<lambda>_ _ _. ''x''"
                "''syntax error''" 1 parser_long_query]
    by (simp add: registerParseError_def Let_def snprintf_def parseErrorText_def
        registerError_def parser_long_query_def parser0_def arrowpointer_shape printf_d_def)
qed

text \<open>
  C6, as stated, fails for a long query: the text is printed into a buffer of 512
  bytes, so the diagnostic that is registered has at most 511 characters. For a
  query of 600 characters the combination has 643 characters and the diagnostic has
  511: it ends inside the query text, and the caret marker line is not in it.
\<close>

theorem registerParseError_long_query_counterexample:
  "(case registerParseError (\<lambda>_ _ _. ''x'') (\<lambda>_. CHR ''?'') TRI_ERROR_QUERY_PARSE
           (Some ''syntax error'') 1 0 parser_long_query of
      Returned u p' \<Rightarrow>
        map (\<lambda>e. (fst e, map_option length (snd e))) (errors (query p'))
          = [(TRI_ERROR_QUERY_PARSE, Some 511)]
    | Thrown e p' \<Rightarrow> False
    | AssertionFailed \<Rightarrow> False
    | Undefined \<Rightarrow> False)
   \<and> length (parseErrorText ''syntax error'' ''x'' 1 1
        (queryString (query parser_long_query)) (arrowpointer (\<lambda>_. CHR ''?'') 0)) = 643"
  by (simp add: registerParseError_def Let_def snprintf_def parseErrorText_def
      registerError_def parser_long_query_def parser0_def arrowpointer_zero printf_d_def)

text \<open>
  C6, amended. A call of \<^verbatim>\<open>registerParseError\<close> with an error code other than
  "no error", a message and a column from 0 to 2147483637 registers exactly one
  diagnostic under that code. Its text is the first 511 characters of: the message,
  \<open>near\<close> and the region in single quotes, \<open>at position\<close>, the line as given, a
  colon, the column plus one, a colon and a newline, the whole query text, a newline,
  the caret marker and a newline. When this combination has at most 511 characters
  the diagnostic is the whole of it. Nothing else in the parser changes.
\<close>

theorem registerParseError_diagnostic:
  assumes "errorCode \<noteq> TRI_ERROR_NO_ERROR" and "0 \<le> column" and "column \<le> 2147483637"
  shows "\<exists>diagnostic.
      registerParseError extractRegion garbage errorCode (Some message) line column p =
        Returned () (p\<lparr>query := (query p)\<lparr>errors := errors (query p) @
                       [(errorCode, Some (take 511 diagnostic))]\<rparr>\<rparr>)
      \<and> diagnostic =
          message @ '' near '' @ [CHR 0x27] @ extractRegion (query p) line column
            @ [CHR 0x27] @ '' at position '' @ printf_d line @ '':''
            @ printf_d (column + 1) @ '':'' @ [CHR 0x0A]
            @ queryString (query p) @ [CHR 0x0A]
            @ arrowpointer garbage (nat column) @ [CHR 0x0A]
      \<and> (length diagnostic \<le> 511 \<longrightarrow> take 511 diagnostic = diagnostic)"
  using registerParseError_returns[OF assms, of extractRegion garbage message line p]
  by (simp add: parseErrorText_def)

theorem registerParseError_diagnostic_witness:
  "TRI_ERROR_QUERY_PARSE \<noteq> TRI_ERROR_NO_ERROR \<and> (0::int) \<le> 7 \<and> (7::int) \<le> 2147483637
   \<and> registerParseError (\<lambda>_ _ _. ''{a:1}'') (\<lambda>_. CHR ''?'') TRI_ERROR_QUERY_PARSE
        (Some ''syntax error'') 1 7 parser0 =
          Returned () (parser0\<lparr>query := (query parser0)\<lparr>errors :=
            [(TRI_ERROR_QUERY_PARSE,
              Some (''syntax error near '' @ [CHR 0x27] @ ''{a:1}'' @ [CHR 0x27]
                    @ '' at position 1:8:'' @ [CHR 0x0A]
                    @ ''INSERT {a:1} INTO c'' @ [CHR 0x0A]
                    @ ''      ^^^'' @ [CHR 0x0A]))]\<rparr>\<rparr>)"
  using registerParseError_diagnostic
          [of TRI_ERROR_QUERY_PARSE 7 "\<lambda>_ _ _. ''{a:1}''" "\<lambda>_. CHR ''?''"
              "''syntax error''" 1 parser0]
  by (simp add: parser0_def printf_d_def arrowpointer_shape eval_nat_numeral)

end
